theory Spec2Isabelle
  imports Main "HOL-Library.Word" "HOL-Library.Sublist"
begin

unbundle bit_operations_syntax

section \<open>Symlink-safe extended attributes: internal/fusefrontend/xattr_linux.go\<close>

text \<open>
  The file holds a name filter (\<open>disallowedXAttrName\<close>), a flag filter
  (\<open>filterXattrSetFlags\<close>), the path alias \<open>procFd\<close>, the descriptor resolver
  \<open>getFileFd\<close> and the four operations \<open>getXattr\<close>, \<open>setXattr\<close>, \<open>removeXAttr\<close>
  and \<open>listXAttr\<close>. The operations are effectful: they call \<open>fs.Open\<close>, the
  \<open>xattr\<close> package, \<open>Release\<close> and the logger. The embedding threads an explicit
  state through every such call: the state of the outside world, which the called
  function may change, and the trace of the calls made so far, in order, with their
  arguments.
\<close>

subsection \<open>Status codes and open flags\<close>

text \<open>
  \<open>fuse.Status\<close> is an \<open>int32\<close>; \<open>Status.Ok()\<close> compares with \<open>fuse.OK\<close>. The values
  are those of go-fuse and of package \<open>syscall\<close> on linux/amd64.
\<close>

type_synonym Status = "32 word"

definition OK :: Status where
  "OK = 0"

definition EIO :: Status where
  "EIO = 5"

definition ELOOP :: Status where
  "ELOOP = 40"

definition Ok :: "Status \<Rightarrow> bool" where
  "Ok code = (code = OK)"

definition O_RDONLY :: "32 word" where
  "O_RDONLY = 0x0"

definition O_NONBLOCK :: "32 word" where
  "O_NONBLOCK = 0x800"

subsection \<open>Go values\<close>

text \<open>
  A Go string is a sequence of bytes, as \<open>string\<close> is here. A slice may be \<open>nil\<close>: it
  is an optional list, \<open>None\<close> for \<open>nil\<close>. A value of interface type \<open>error\<close> is
  \<open>None\<close> for \<open>nil\<close> and \<open>Some e\<close> otherwise. A pointer is optional in the same way.
\<close>

type_synonym byte_slice = "8 word list option"

type_synonym string_slice = "string list option"

record Context =
  Uid :: "32 word"
  Gid :: "32 word"
  Pid :: "32 word"

text \<open>
  A value of interface type \<open>nodefs.File\<close>: the nil interface, a \<open>*File\<close> of this
  package (\<open>'f\<close> stands for the file objects such a pointer refers to), or a value
  of any other implementing type.
\<close>

datatype ('f, 'o) nodefs_File = NilFile | StarFile 'f | OtherFile 'o

text \<open>A nil dereference panics; the panic leaves the function without a result.\<close>

datatype 'a outcome = Panic | Return 'a

subsection \<open>The name and flag filters\<close>

text \<open>\<open>strings.HasPrefix(s, prefix)\<close> is \<open>len(s) >= len(prefix) && s[0:len(prefix)] == prefix\<close>.\<close>

definition HasPrefix :: "string \<Rightarrow> string \<Rightarrow> bool" where
  "HasPrefix s pre = (length s \<ge> length pre \<and> take (length pre) s = pre)"

definition xattrUserPrefix :: string where
  "xattrUserPrefix = ''user.''"

definition disallowedXAttrName :: "string \<Rightarrow> bool" where
  "disallowedXAttrName attr = (\<not> HasPrefix attr xattrUserPrefix)"

definition filterXattrSetFlags :: "int \<Rightarrow> int" where
  "filterXattrSetFlags flags = flags"

subsection \<open>The path alias of a descriptor\<close>

text \<open>\<open>fmt.Sprintf("%d", n)\<close>: the decimal digits of \<open>n\<close>, after a minus sign when \<open>n < 0\<close>.\<close>

definition digit :: "nat \<Rightarrow> char" where
  "digit n = ''0123456789'' ! (n mod 10)"

fun decimal :: "nat \<Rightarrow> string" where
  "decimal n = (if n < 10 then [digit n] else decimal (n div 10) @ [digit n])"

declare decimal.simps [simp del]

definition fmt_d :: "int \<Rightarrow> string" where
  "fmt_d n = (if n < 0 then ''-'' @ decimal (nat (- n)) else decimal (nat n))"

definition procFd :: "int \<Rightarrow> string" where
  "procFd fd = ''/proc/self/fd/'' @ fmt_d fd"

subsection \<open>The outside world\<close>

text \<open>
  The functions this file calls and does not define are parameters: \<open>fs.Open\<close>,
  \<open>Release\<close> of a \<open>nodefs.File\<close>, \<open>intFd\<close> of a \<open>*File\<close>, the four functions of package
  \<open>xattr\<close>, and \<open>unpackXattrErr\<close>. Each takes the state of the world \<open>'w\<close> and
  returns it changed, next to its result. \<open>intFd\<close> reads a field of the file object
  and \<open>unpackXattrErr\<close> translates an error value; neither changes the world.
\<close>

record ('w, 'f, 'o, 'e) env =
  fs_Open :: "string \<Rightarrow> 32 word \<Rightarrow> Context option \<Rightarrow> 'w \<Rightarrow> (('f, 'o) nodefs_File \<times> Status) \<times> 'w"
  file_Release :: "('f, 'o) nodefs_File \<Rightarrow> 'w \<Rightarrow> 'w"
  file_intFd :: "'f \<Rightarrow> int"
  xattr_Get :: "string \<Rightarrow> string \<Rightarrow> 'w \<Rightarrow> (byte_slice \<times> 'e option) \<times> 'w"
  xattr_SetWithFlags :: "string \<Rightarrow> string \<Rightarrow> byte_slice \<Rightarrow> int \<Rightarrow> 'w \<Rightarrow> 'e option \<times> 'w"
  xattr_Remove :: "string \<Rightarrow> string \<Rightarrow> 'w \<Rightarrow> 'e option \<times> 'w"
  xattr_List :: "string \<Rightarrow> 'w \<Rightarrow> (string_slice \<times> 'e option) \<times> 'w"
  unpackXattrErr :: "'e option \<Rightarrow> Status"

text \<open>One entry of the trace per call that leaves this file.\<close>

datatype ('f, 'o) event =
    Ev_Open string "32 word" "Context option"
  | Ev_Warn string
  | Ev_Release "('f, 'o) nodefs_File"
  | Ev_Get string string
  | Ev_SetWithFlags string string byte_slice int
  | Ev_Remove string string
  | Ev_List string

record ('w, 'f, 'o) state =
  world :: 'w
  trace :: "('f, 'o) event list"

definition call_Open ::
  "('w, 'f, 'o, 'e) env \<Rightarrow> string \<Rightarrow> 32 word \<Rightarrow> Context option \<Rightarrow> ('w, 'f, 'o) state
    \<Rightarrow> (('f, 'o) nodefs_File \<times> Status) \<times> ('w, 'f, 'o) state" where
  "call_Open E path flags context s =
     (case fs_Open E path flags context (world s) of
        (r, w) \<Rightarrow> (r, \<lparr>world = w, trace = trace s @ [Ev_Open path flags context]\<rparr>))"

definition call_Warn :: "string \<Rightarrow> ('w, 'f, 'o) state \<Rightarrow> ('w, 'f, 'o) state" where
  "call_Warn msg s = \<lparr>world = world s, trace = trace s @ [Ev_Warn msg]\<rparr>"

definition call_Release ::
  "('w, 'f, 'o, 'e) env \<Rightarrow> ('f, 'o) nodefs_File \<Rightarrow> ('w, 'f, 'o) state \<Rightarrow> ('w, 'f, 'o) state" where
  "call_Release E f s =
     \<lparr>world = file_Release E f (world s), trace = trace s @ [Ev_Release f]\<rparr>"

definition call_Get ::
  "('w, 'f, 'o, 'e) env \<Rightarrow> string \<Rightarrow> string \<Rightarrow> ('w, 'f, 'o) state
    \<Rightarrow> (byte_slice \<times> 'e option) \<times> ('w, 'f, 'o) state" where
  "call_Get E path name s =
     (case xattr_Get E path name (world s) of
        (r, w) \<Rightarrow> (r, \<lparr>world = w, trace = trace s @ [Ev_Get path name]\<rparr>))"

definition call_SetWithFlags ::
  "('w, 'f, 'o, 'e) env \<Rightarrow> string \<Rightarrow> string \<Rightarrow> byte_slice \<Rightarrow> int \<Rightarrow> ('w, 'f, 'o) state
    \<Rightarrow> 'e option \<times> ('w, 'f, 'o) state" where
  "call_SetWithFlags E path name data flags s =
     (case xattr_SetWithFlags E path name data flags (world s) of
        (r, w) \<Rightarrow> (r, \<lparr>world = w, trace = trace s @ [Ev_SetWithFlags path name data flags]\<rparr>))"

definition call_Remove ::
  "('w, 'f, 'o, 'e) env \<Rightarrow> string \<Rightarrow> string \<Rightarrow> ('w, 'f, 'o) state
    \<Rightarrow> 'e option \<times> ('w, 'f, 'o) state" where
  "call_Remove E path name s =
     (case xattr_Remove E path name (world s) of
        (r, w) \<Rightarrow> (r, \<lparr>world = w, trace = trace s @ [Ev_Remove path name]\<rparr>))"

definition call_List ::
  "('w, 'f, 'o, 'e) env \<Rightarrow> string \<Rightarrow> ('w, 'f, 'o) state
    \<Rightarrow> (string_slice \<times> 'e option) \<times> ('w, 'f, 'o) state" where
  "call_List E path s =
     (case xattr_List E path (world s) of
        (r, w) \<Rightarrow> (r, \<lparr>world = w, trace = trace s @ [Ev_List path]\<rparr>))"

subsection \<open>getFileFd\<close>

text \<open>
  \<open>fs.Open\<close> with \<open>O_RDONLY|O_NONBLOCK\<close>; a status that is not OK is returned as it
  is. The type assertion \<open>fuseFile.(*File)\<close> fails on every value that is not a
  \<open>*File\<close>, the nil interface included; then the warning is logged and
  \<open>fuseFile.Release()\<close> is called, which on the nil interface panics.
\<close>

definition getFileFd ::
  "('w, 'f, 'o, 'e) env \<Rightarrow> string \<Rightarrow> Context option \<Rightarrow> ('w, 'f, 'o) state
    \<Rightarrow> ('f option \<times> int \<times> Status) outcome \<times> ('w, 'f, 'o) state" where
  "getFileFd E relPath context s =
     (case call_Open E relPath (O_RDONLY OR O_NONBLOCK) context s of
        ((fuseFile, status), s1) \<Rightarrow>
          if \<not> Ok status then (Return (None, - 1, status), s1)
          else (case fuseFile of
                  StarFile file \<Rightarrow> (Return (Some file, file_intFd E file, OK), s1)
                | OtherFile x \<Rightarrow>
                    (let s2 = call_Warn ''BUG: xattrGet: cast to *File failed'' s1;
                         s3 = call_Release E fuseFile s2
                     in (Return (None, - 1, EIO), s3))
                | NilFile \<Rightarrow>
                    (let s2 = call_Warn ''BUG: xattrGet: cast to *File failed'' s1
                     in (Panic, s2))))"

text \<open>
  The deferred \<open>file.Release()\<close> of the four operations, run when the function
  leaves. The receiver is a \<open>*File\<close>; on a nil pointer the method panics.
\<close>

definition deferred_Release ::
  "('w, 'f, 'o, 'e) env \<Rightarrow> 'f option \<Rightarrow> 'a \<Rightarrow> ('w, 'f, 'o) state
    \<Rightarrow> 'a outcome \<times> ('w, 'f, 'o) state" where
  "deferred_Release E file result s =
     (case file of
        None \<Rightarrow> (Panic, s)
      | Some f \<Rightarrow> (Return result, call_Release E (StarFile f) s))"

subsection \<open>The four operations\<close>

definition getXattr ::
  "('w, 'f, 'o, 'e) env \<Rightarrow> string \<Rightarrow> string \<Rightarrow> Context option \<Rightarrow> ('w, 'f, 'o) state
    \<Rightarrow> (byte_slice \<times> Status) outcome \<times> ('w, 'f, 'o) state" where
  "getXattr E relPath cAttr context s =
     (case getFileFd E relPath context s of
        (Panic, s1) \<Rightarrow> (Panic, s1)
      | (Return (file, fd, status), s1) \<Rightarrow>
          if \<not> Ok status then (Return (None, status), s1)
          else (case call_Get E (procFd fd) cAttr s1 of
                  ((cData, err), s2) \<Rightarrow>
                    if err \<noteq> None then deferred_Release E file (None, unpackXattrErr E err) s2
                    else deferred_Release E file (cData, OK) s2))"

definition setXattr ::
  "('w, 'f, 'o, 'e) env \<Rightarrow> string \<Rightarrow> string \<Rightarrow> byte_slice \<Rightarrow> int \<Rightarrow> Context option
    \<Rightarrow> ('w, 'f, 'o) state \<Rightarrow> Status outcome \<times> ('w, 'f, 'o) state" where
  "setXattr E relPath cAttr cData flags context s =
     (case getFileFd E relPath context s of
        (Panic, s1) \<Rightarrow> (Panic, s1)
      | (Return (file, fd, status), s1) \<Rightarrow>
          if \<not> Ok status then (Return status, s1)
          else (case call_SetWithFlags E (procFd fd) cAttr cData flags s1 of
                  (err, s2) \<Rightarrow> deferred_Release E file (unpackXattrErr E err) s2))"

definition removeXAttr ::
  "('w, 'f, 'o, 'e) env \<Rightarrow> string \<Rightarrow> string \<Rightarrow> Context option \<Rightarrow> ('w, 'f, 'o) state
    \<Rightarrow> Status outcome \<times> ('w, 'f, 'o) state" where
  "removeXAttr E relPath cAttr context s =
     (case getFileFd E relPath context s of
        (Panic, s1) \<Rightarrow> (Panic, s1)
      | (Return (file, fd, status), s1) \<Rightarrow>
          if \<not> Ok status then (Return status, s1)
          else (case call_Remove E (procFd fd) cAttr s1 of
                  (err, s2) \<Rightarrow> deferred_Release E file (unpackXattrErr E err) s2))"

definition listXAttr ::
  "('w, 'f, 'o, 'e) env \<Rightarrow> string \<Rightarrow> Context option \<Rightarrow> ('w, 'f, 'o) state
    \<Rightarrow> (string_slice \<times> Status) outcome \<times> ('w, 'f, 'o) state" where
  "listXAttr E relPath context s =
     (case getFileFd E relPath context s of
        (Panic, s1) \<Rightarrow> (Panic, s1)
      | (Return (file, fd, status), s1) \<Rightarrow>
          if \<not> Ok status then
            (if status = ELOOP then (Return (None, OK), s1)
             else (Return (None, status), s1))
          else (case call_List E (procFd fd) s1 of
                  ((cNames, err), s2) \<Rightarrow>
                    if err \<noteq> None then deferred_Release E file (None, unpackXattrErr E err) s2
                    else deferred_Release E file (cNames, OK) s2))"

subsection \<open>Reading a trace\<close>

text \<open>The calls into package \<open>xattr\<close>, the calls of \<open>fs.Open\<close> and the released objects of a trace, in order.\<close>

fun is_attr_call :: "('f, 'o) event \<Rightarrow> bool" where
  "is_attr_call (Ev_Get path name) = True"
| "is_attr_call (Ev_SetWithFlags path name data flags) = True"
| "is_attr_call (Ev_Remove path name) = True"
| "is_attr_call (Ev_List path) = True"
| "is_attr_call _ = False"

definition attr_calls :: "('f, 'o) event list \<Rightarrow> ('f, 'o) event list" where
  "attr_calls tr = filter is_attr_call tr"

fun is_Open :: "('f, 'o) event \<Rightarrow> bool" where
  "is_Open (Ev_Open path flags context) = True"
| "is_Open _ = False"

definition opens :: "('f, 'o) event list \<Rightarrow> ('f, 'o) event list" where
  "opens tr = filter is_Open tr"

fun released :: "('f, 'o) event \<Rightarrow> ('f, 'o) nodefs_File list" where
  "released (Ev_Release f) = [f]"
| "released _ = []"

definition releases :: "('f, 'o) event list \<Rightarrow> ('f, 'o) nodefs_File list" where
  "releases tr = concat (map released tr)"

text \<open>A call with its attribute name blanked: what is left is the kind of call and its other arguments.\<close>

fun erase_name :: "('f, 'o) event \<Rightarrow> ('f, 'o) event" where
  "erase_name (Ev_Get path name) = Ev_Get path []"
| "erase_name (Ev_SetWithFlags path name data flags) = Ev_SetWithFlags path [] data flags"
| "erase_name (Ev_Remove path name) = Ev_Remove path []"
| "erase_name e = e"

subsection \<open>A sample world\<close>

text \<open>
  A small world to run the operations in. Its state counts the open descriptors.
  \<open>file\<close> and \<open>stale\<close> open as \<open>*File\<close> with descriptors 7 and 8, \<open>foreign\<close> opens
  as an object of another type, \<open>symlink\<close> fails with \<open>ELOOP\<close>. \<open>fifo\<close> is a named pipe
  with no writer: it opens with descriptor 9 when \<open>O_NONBLOCK\<close> is among the flags,
  and otherwise the open never gets through, which this world answers with \<open>EINTR\<close>
  (4). Every other path fails with \<open>ENOENT\<close> (2). Descriptor 7 carries the one
  attribute \<open>user.a\<close>. Writing to it succeeds, except that the flag \<open>XATTR_CREATE\<close>
  (1) fails with \<open>EEXIST\<close> (17) on a name that is there and \<open>XATTR_REPLACE\<close> (2) with
  \<open>ENODATA\<close> (61) on a name that is not. On any other descriptor reading and
  removing fail with \<open>ENODATA\<close>, writing and listing with \<open>ELOOP\<close> (40). Errors are
  error numbers, translated to the status of the same number.
\<close>

definition sample_Open ::
  "string \<Rightarrow> 32 word \<Rightarrow> Context option \<Rightarrow> int \<Rightarrow> ((int, unit) nodefs_File \<times> Status) \<times> int" where
  "sample_Open path flags context w =
     (if path = ''file'' then ((StarFile 7, OK), w + 1)
      else if path = ''stale'' then ((StarFile 8, OK), w + 1)
      else if path = ''foreign'' then ((OtherFile (), OK), w + 1)
      else if path = ''symlink'' then ((NilFile, ELOOP), w)
      else if path = ''fifo'' then
        (if flags AND O_NONBLOCK = O_NONBLOCK then ((StarFile 9, OK), w + 1)
         else ((NilFile, 4), w))
      else ((NilFile, 2), w))"

definition sample_Get :: "string \<Rightarrow> string \<Rightarrow> int \<Rightarrow> (byte_slice \<times> nat option) \<times> int" where
  "sample_Get path name w =
     (if path = ''/proc/self/fd/7'' \<and> name = ''user.a'' then ((Some [1, 2, 3], None), w)
      else ((None, Some 61), w))"

definition sample_SetWithFlags ::
  "string \<Rightarrow> string \<Rightarrow> byte_slice \<Rightarrow> int \<Rightarrow> int \<Rightarrow> nat option \<times> int" where
  "sample_SetWithFlags path name data flags w =
     (if path = ''/proc/self/fd/7'' then
        (if flags = 1 \<and> name = ''user.a'' then (Some 17, w)
         else if flags = 2 \<and> name \<noteq> ''user.a'' then (Some 61, w)
         else (None, w))
      else (Some 40, w))"

definition sample_Remove :: "string \<Rightarrow> string \<Rightarrow> int \<Rightarrow> nat option \<times> int" where
  "sample_Remove path name w =
     (if path = ''/proc/self/fd/7'' \<and> name = ''user.a'' then (None, w) else (Some 61, w))"

definition sample_List :: "string \<Rightarrow> int \<Rightarrow> (string_slice \<times> nat option) \<times> int" where
  "sample_List path w =
     (if path = ''/proc/self/fd/7'' then ((Some [''user.a''], None), w)
      else ((None, Some 40), w))"

definition sample_unpackXattrErr :: "nat option \<Rightarrow> Status" where
  "sample_unpackXattrErr err = (case err of None \<Rightarrow> OK | Some n \<Rightarrow> of_nat n)"

definition sample_env :: "(int, int, unit, nat) env" where
  "sample_env =
     \<lparr>fs_Open = sample_Open,
      file_Release = (\<lambda>f w. w - 1),
      file_intFd = (\<lambda>f. f),
      xattr_Get = sample_Get,
      xattr_SetWithFlags = sample_SetWithFlags,
      xattr_Remove = sample_Remove,
      xattr_List = sample_List,
      unpackXattrErr = sample_unpackXattrErr\<rparr>"

definition s0 :: "(int, int, unit) state" where
  "s0 = \<lparr>world = 0, trace = []\<rparr>"

section \<open>The name filter\<close>

lemma HasPrefix_iff: "HasPrefix s pre \<longleftrightarrow> (\<exists>rest. s = pre @ rest)"
proof
  assume "HasPrefix s pre"
  then have "s = pre @ drop (length pre) s"
    by (metis HasPrefix_def append_take_drop_id)
  then show "\<exists>rest. s = pre @ rest" ..
next
  assume "\<exists>rest. s = pre @ rest"
  then show "HasPrefix s pre"
    by (auto simp: HasPrefix_def)
qed

text \<open>
  C3. A name is disallowed exactly when it does not start with \<open>user.\<close>: every name
  \<open>user.\<close> followed by anything is allowed, every other name is disallowed. The
  result is a function of the name alone.
\<close>

theorem disallowedXAttrName_iff:
  "disallowedXAttrName attr = (\<not> (\<exists>rest. attr = ''user.'' @ rest))"
  unfolding disallowedXAttrName_def xattrUserPrefix_def by (simp only: HasPrefix_iff)

section \<open>Basic facts\<close>

lemmas call_defs = call_Open_def call_Warn_def call_Release_def call_Get_def
  call_SetWithFlags_def call_Remove_def call_List_def deferred_Release_def

lemmas sample_defs = sample_env_def sample_Open_def sample_Get_def sample_SetWithFlags_def
  sample_Remove_def sample_List_def sample_unpackXattrErr_def s0_def

lemma EIO_not_Ok: "\<not> Ok EIO"
  by (simp add: Ok_def EIO_def OK_def)

lemma ELOOP_not_Ok: "\<not> Ok ELOOP"
  by (simp add: Ok_def ELOOP_def OK_def)

lemma Ok_OK: "Ok OK"
  by (simp add: Ok_def)

lemma procFd_7: "procFd 7 = ''/proc/self/fd/7''"
  by (simp add: procFd_def fmt_d_def decimal.simps digit_def)

lemma procFd_8: "procFd 8 = ''/proc/self/fd/8''"
  by (simp add: procFd_def fmt_d_def decimal.simps digit_def)

lemma prefix_procFd: "prefix ''/proc/self/fd/'' (procFd fd)"
  unfolding procFd_def by (rule prefixI) (rule refl)

text \<open>What \<open>getFileFd\<close> does, by the answer of \<open>fs.Open\<close>.\<close>

lemma getFileFd_cases:
  assumes "fs_Open E relPath (O_RDONLY OR O_NONBLOCK) context (world s) = ((fuseFile, status), w)"
  shows "getFileFd E relPath context s =
    (if \<not> Ok status then
       (Return (None, - 1, status),
        \<lparr>world = w, trace = trace s @ [Ev_Open relPath (O_RDONLY OR O_NONBLOCK) context]\<rparr>)
     else case fuseFile of
       StarFile file \<Rightarrow>
         (Return (Some file, file_intFd E file, OK),
          \<lparr>world = w, trace = trace s @ [Ev_Open relPath (O_RDONLY OR O_NONBLOCK) context]\<rparr>)
     | OtherFile x \<Rightarrow>
         (Return (None, - 1, EIO),
          \<lparr>world = file_Release E fuseFile w,
           trace = trace s @ [Ev_Open relPath (O_RDONLY OR O_NONBLOCK) context,
             Ev_Warn ''BUG: xattrGet: cast to *File failed'', Ev_Release fuseFile]\<rparr>)
     | NilFile \<Rightarrow>
         (Panic,
          \<lparr>world = w,
           trace = trace s @ [Ev_Open relPath (O_RDONLY OR O_NONBLOCK) context,
             Ev_Warn ''BUG: xattrGet: cast to *File failed'']\<rparr>))"
  using assms by (simp add: getFileFd_def call_defs split: nodefs_File.splits)

text \<open>
  The nil interface with an OK status is outside what \<open>fs.Open\<close> of this package
  returns. There the type assertion fails as well, the warning is logged, and the
  call of \<open>Release\<close> panics.
\<close>

lemma getFileFd_nil_interface:
  assumes "fs_Open E relPath (O_RDONLY OR O_NONBLOCK) context (world s) = ((NilFile, status), w)"
    and "Ok status"
  shows "getFileFd E relPath context s =
      (Panic,
       \<lparr>world = w,
        trace = trace s @ [Ev_Open relPath (O_RDONLY OR O_NONBLOCK) context,
          Ev_Warn ''BUG: xattrGet: cast to *File failed'']\<rparr>)"
  using assms(2) by (simp add: getFileFd_cases [OF assms(1)])

text \<open>A status that is OK comes with a file, its descriptor, and no call into \<open>xattr\<close>.\<close>

lemma getFileFd_Ok:
  assumes "getFileFd E relPath context s = (Return (file, fd, status), s1)" and "Ok status"
  shows "\<exists>f. file = Some f \<and> fd = file_intFd E f \<and> status = OK \<and>
    trace s1 = trace s @ [Ev_Open relPath (O_RDONLY OR O_NONBLOCK) context]"
proof -
  obtain fuseFile st w where
    o: "fs_Open E relPath (O_RDONLY OR O_NONBLOCK) context (world s) = ((fuseFile, st), w)"
    by (metis surj_pair)
  from assms show ?thesis
    unfolding getFileFd_cases [OF o]
    by (auto simp: EIO_not_Ok split: if_splits nodefs_File.splits)
qed

lemma getFileFd_attr_calls:
  "attr_calls (trace (snd (getFileFd E relPath context s))) = attr_calls (trace s)"
proof -
  obtain fuseFile st w where
    o: "fs_Open E relPath (O_RDONLY OR O_NONBLOCK) context (world s) = ((fuseFile, st), w)"
    by (metis surj_pair)
  show ?thesis
    unfolding getFileFd_cases [OF o]
    by (simp add: attr_calls_def split: nodefs_File.splits)
qed

section \<open>Every attribute call goes through the descriptor\<close>

text \<open>
  After a successful \<open>getFileFd\<close> each operation makes one call into \<open>xattr\<close>, on
  the path \<open>procFd fd\<close> and in the world \<open>getFileFd\<close> left, translates the answer,
  and releases the file in the world that call left.
\<close>

lemma getXattr_run:
  assumes "getFileFd E relPath context s = (Return (Some f, fd, status), s1)" and "Ok status"
  shows "getXattr E relPath cAttr context s =
    (case xattr_Get E (procFd fd) cAttr (world s1) of
       ((cData, err), w) \<Rightarrow>
         (Return (if err \<noteq> None then (None, unpackXattrErr E err) else (cData, OK)),
          \<lparr>world = file_Release E (StarFile f) w,
           trace = trace s1 @ [Ev_Get (procFd fd) cAttr, Ev_Release (StarFile f)]\<rparr>))"
  using assms by (auto simp: getXattr_def call_defs split: prod.splits)

lemma setXattr_run:
  assumes "getFileFd E relPath context s = (Return (Some f, fd, status), s1)" and "Ok status"
  shows "setXattr E relPath cAttr cData flags context s =
    (case xattr_SetWithFlags E (procFd fd) cAttr cData flags (world s1) of
       (err, w) \<Rightarrow>
         (Return (unpackXattrErr E err),
          \<lparr>world = file_Release E (StarFile f) w,
           trace = trace s1 @ [Ev_SetWithFlags (procFd fd) cAttr cData flags,
             Ev_Release (StarFile f)]\<rparr>))"
  using assms by (auto simp: setXattr_def call_defs split: prod.splits)

lemma removeXAttr_run:
  assumes "getFileFd E relPath context s = (Return (Some f, fd, status), s1)" and "Ok status"
  shows "removeXAttr E relPath cAttr context s =
    (case xattr_Remove E (procFd fd) cAttr (world s1) of
       (err, w) \<Rightarrow>
         (Return (unpackXattrErr E err),
          \<lparr>world = file_Release E (StarFile f) w,
           trace = trace s1 @ [Ev_Remove (procFd fd) cAttr, Ev_Release (StarFile f)]\<rparr>))"
  using assms by (auto simp: removeXAttr_def call_defs split: prod.splits)

lemma listXAttr_run:
  assumes "getFileFd E relPath context s = (Return (Some f, fd, status), s1)" and "Ok status"
  shows "listXAttr E relPath context s =
    (case xattr_List E (procFd fd) (world s1) of
       ((cNames, err), w) \<Rightarrow>
         (Return (if err \<noteq> None then (None, unpackXattrErr E err) else (cNames, OK)),
          \<lparr>world = file_Release E (StarFile f) w,
           trace = trace s1 @ [Ev_List (procFd fd), Ev_Release (StarFile f)]\<rparr>))"
  using assms by (auto simp: listXAttr_def call_defs split: prod.splits)

lemma getXattr_Ok:
  assumes "getFileFd E relPath context s = (Return (Some f, fd, status), s1)" and "Ok status"
  shows "trace (snd (getXattr E relPath cAttr context s)) =
    trace s1 @ [Ev_Get (procFd fd) cAttr, Ev_Release (StarFile f)]"
  by (simp add: getXattr_run [OF assms] split: prod.splits)

lemma setXattr_Ok:
  assumes "getFileFd E relPath context s = (Return (Some f, fd, status), s1)" and "Ok status"
  shows "trace (snd (setXattr E relPath cAttr cData flags context s)) =
    trace s1 @ [Ev_SetWithFlags (procFd fd) cAttr cData flags, Ev_Release (StarFile f)]"
  by (simp add: setXattr_run [OF assms] split: prod.splits)

lemma removeXAttr_Ok:
  assumes "getFileFd E relPath context s = (Return (Some f, fd, status), s1)" and "Ok status"
  shows "trace (snd (removeXAttr E relPath cAttr context s)) =
    trace s1 @ [Ev_Remove (procFd fd) cAttr, Ev_Release (StarFile f)]"
  by (simp add: removeXAttr_run [OF assms] split: prod.splits)

lemma listXAttr_Ok:
  assumes "getFileFd E relPath context s = (Return (Some f, fd, status), s1)" and "Ok status"
  shows "trace (snd (listXAttr E relPath context s)) =
    trace s1 @ [Ev_List (procFd fd), Ev_Release (StarFile f)]"
  by (simp add: listXAttr_run [OF assms] split: prod.splits)

text \<open>
  C1. When \<open>getFileFd\<close> has returned a file, a descriptor \<open>fd\<close> and an OK status,
  leaving the state \<open>s1\<close>, each of \<open>getXattr\<close>, \<open>setXattr\<close>, \<open>removeXAttr\<close> and
  \<open>listXAttr\<close> is the one call \<open>xattr.Get\<close>, \<open>xattr.SetWithFlags\<close>, \<open>xattr.Remove\<close>,
  \<open>xattr.List\<close> on the path \<open>procFd fd\<close> in the world of \<open>s1\<close>: the result returned
  is the translation of what that call answers, and the world left is the world
  that call leaves, with the file released in it. The trace gains that call and the
  release, and no other call into \<open>xattr\<close>. The path \<open>procFd fd\<close> starts with
  \<open>/proc/self/fd/\<close>, so it differs from \<open>relPath\<close> whenever \<open>relPath\<close> does not itself
  start so, as no relative path does.
\<close>

theorem attr_calls_target_procFd:
  assumes "getFileFd E relPath context s = (Return (file, fd, status), s1)" and "Ok status"
  shows "(\<exists>f. file = Some f
      \<and> getXattr E relPath cAttr context s =
          (case xattr_Get E (procFd fd) cAttr (world s1) of
             ((cData', err), w) \<Rightarrow>
               (Return (if err \<noteq> None then (None, unpackXattrErr E err) else (cData', OK)),
                \<lparr>world = file_Release E (StarFile f) w,
                 trace = trace s1 @ [Ev_Get (procFd fd) cAttr, Ev_Release (StarFile f)]\<rparr>))
      \<and> setXattr E relPath cAttr cData flags context s =
          (case xattr_SetWithFlags E (procFd fd) cAttr cData flags (world s1) of
             (err, w) \<Rightarrow>
               (Return (unpackXattrErr E err),
                \<lparr>world = file_Release E (StarFile f) w,
                 trace = trace s1 @ [Ev_SetWithFlags (procFd fd) cAttr cData flags,
                   Ev_Release (StarFile f)]\<rparr>))
      \<and> removeXAttr E relPath cAttr context s =
          (case xattr_Remove E (procFd fd) cAttr (world s1) of
             (err, w) \<Rightarrow>
               (Return (unpackXattrErr E err),
                \<lparr>world = file_Release E (StarFile f) w,
                 trace = trace s1 @ [Ev_Remove (procFd fd) cAttr, Ev_Release (StarFile f)]\<rparr>))
      \<and> listXAttr E relPath context s =
          (case xattr_List E (procFd fd) (world s1) of
             ((cNames, err), w) \<Rightarrow>
               (Return (if err \<noteq> None then (None, unpackXattrErr E err) else (cNames, OK)),
                \<lparr>world = file_Release E (StarFile f) w,
                 trace = trace s1 @ [Ev_List (procFd fd), Ev_Release (StarFile f)]\<rparr>)))
    \<and> attr_calls (trace (snd (getXattr E relPath cAttr context s))) =
      attr_calls (trace s) @ [Ev_Get (procFd fd) cAttr]
    \<and> attr_calls (trace (snd (setXattr E relPath cAttr cData flags context s))) =
      attr_calls (trace s) @ [Ev_SetWithFlags (procFd fd) cAttr cData flags]
    \<and> attr_calls (trace (snd (removeXAttr E relPath cAttr context s))) =
      attr_calls (trace s) @ [Ev_Remove (procFd fd) cAttr]
    \<and> attr_calls (trace (snd (listXAttr E relPath context s))) =
      attr_calls (trace s) @ [Ev_List (procFd fd)]
    \<and> (\<not> prefix ''/proc/self/fd/'' relPath \<longrightarrow> procFd fd \<noteq> relPath)"
proof -
  from getFileFd_Ok [OF assms] obtain f where
    f: "file = Some f"
    and s1: "trace s1 = trace s @ [Ev_Open relPath (O_RDONLY OR O_NONBLOCK) context]"
    by blast
  note g = assms(1) [unfolded f]
  have run: "getXattr E relPath cAttr context s =
      (case xattr_Get E (procFd fd) cAttr (world s1) of
         ((cData', err), w) \<Rightarrow>
           (Return (if err \<noteq> None then (None, unpackXattrErr E err) else (cData', OK)),
            \<lparr>world = file_Release E (StarFile f) w,
             trace = trace s1 @ [Ev_Get (procFd fd) cAttr, Ev_Release (StarFile f)]\<rparr>))"
    "setXattr E relPath cAttr cData flags context s =
      (case xattr_SetWithFlags E (procFd fd) cAttr cData flags (world s1) of
         (err, w) \<Rightarrow>
           (Return (unpackXattrErr E err),
            \<lparr>world = file_Release E (StarFile f) w,
             trace = trace s1 @ [Ev_SetWithFlags (procFd fd) cAttr cData flags,
               Ev_Release (StarFile f)]\<rparr>))"
    "removeXAttr E relPath cAttr context s =
      (case xattr_Remove E (procFd fd) cAttr (world s1) of
         (err, w) \<Rightarrow>
           (Return (unpackXattrErr E err),
            \<lparr>world = file_Release E (StarFile f) w,
             trace = trace s1 @ [Ev_Remove (procFd fd) cAttr, Ev_Release (StarFile f)]\<rparr>))"
    "listXAttr E relPath context s =
      (case xattr_List E (procFd fd) (world s1) of
         ((cNames, err), w) \<Rightarrow>
           (Return (if err \<noteq> None then (None, unpackXattrErr E err) else (cNames, OK)),
            \<lparr>world = file_Release E (StarFile f) w,
             trace = trace s1 @ [Ev_List (procFd fd), Ev_Release (StarFile f)]\<rparr>))"
    by (rule getXattr_run [OF g assms(2)] setXattr_run [OF g assms(2)]
        removeXAttr_run [OF g assms(2)] listXAttr_run [OF g assms(2)])+
  have calls: "attr_calls (trace (snd (getXattr E relPath cAttr context s))) =
      attr_calls (trace s) @ [Ev_Get (procFd fd) cAttr]"
    "attr_calls (trace (snd (setXattr E relPath cAttr cData flags context s))) =
      attr_calls (trace s) @ [Ev_SetWithFlags (procFd fd) cAttr cData flags]"
    "attr_calls (trace (snd (removeXAttr E relPath cAttr context s))) =
      attr_calls (trace s) @ [Ev_Remove (procFd fd) cAttr]"
    "attr_calls (trace (snd (listXAttr E relPath context s))) =
      attr_calls (trace s) @ [Ev_List (procFd fd)]"
    by (simp_all add: getXattr_Ok [OF g assms(2)] setXattr_Ok [OF g assms(2)]
        removeXAttr_Ok [OF g assms(2)] listXAttr_Ok [OF g assms(2)] s1 attr_calls_def)
  have differs: "\<not> prefix ''/proc/self/fd/'' relPath \<longrightarrow> procFd fd \<noteq> relPath"
    using prefix_procFd [of fd] by auto
  from f run have "\<exists>f. file = Some f
      \<and> getXattr E relPath cAttr context s =
          (case xattr_Get E (procFd fd) cAttr (world s1) of
             ((cData', err), w) \<Rightarrow>
               (Return (if err \<noteq> None then (None, unpackXattrErr E err) else (cData', OK)),
                \<lparr>world = file_Release E (StarFile f) w,
                 trace = trace s1 @ [Ev_Get (procFd fd) cAttr, Ev_Release (StarFile f)]\<rparr>))
      \<and> setXattr E relPath cAttr cData flags context s =
          (case xattr_SetWithFlags E (procFd fd) cAttr cData flags (world s1) of
             (err, w) \<Rightarrow>
               (Return (unpackXattrErr E err),
                \<lparr>world = file_Release E (StarFile f) w,
                 trace = trace s1 @ [Ev_SetWithFlags (procFd fd) cAttr cData flags,
                   Ev_Release (StarFile f)]\<rparr>))
      \<and> removeXAttr E relPath cAttr context s =
          (case xattr_Remove E (procFd fd) cAttr (world s1) of
             (err, w) \<Rightarrow>
               (Return (unpackXattrErr E err),
                \<lparr>world = file_Release E (StarFile f) w,
                 trace = trace s1 @ [Ev_Remove (procFd fd) cAttr, Ev_Release (StarFile f)]\<rparr>))
      \<and> listXAttr E relPath context s =
          (case xattr_List E (procFd fd) (world s1) of
             ((cNames, err), w) \<Rightarrow>
               (Return (if err \<noteq> None then (None, unpackXattrErr E err) else (cNames, OK)),
                \<lparr>world = file_Release E (StarFile f) w,
                 trace = trace s1 @ [Ev_List (procFd fd), Ev_Release (StarFile f)]\<rparr>))"
    by blast
  with calls differs show ?thesis
    by blast
qed

theorem attr_calls_target_procFd_witness:
  "getXattr sample_env ''file'' ''user.a'' None s0 =
      (Return (Some [1, 2, 3], OK),
       \<lparr>world = 0,
        trace = [Ev_Open ''file'' (O_RDONLY OR O_NONBLOCK) None,
          Ev_Get ''/proc/self/fd/7'' ''user.a'', Ev_Release (StarFile 7)]\<rparr>)
    \<and> setXattr sample_env ''file'' ''user.a'' (Some [4]) 0 None s0 =
      (Return OK,
       \<lparr>world = 0,
        trace = [Ev_Open ''file'' (O_RDONLY OR O_NONBLOCK) None,
          Ev_SetWithFlags ''/proc/self/fd/7'' ''user.a'' (Some [4]) 0, Ev_Release (StarFile 7)]\<rparr>)
    \<and> removeXAttr sample_env ''file'' ''user.a'' None s0 =
      (Return OK,
       \<lparr>world = 0,
        trace = [Ev_Open ''file'' (O_RDONLY OR O_NONBLOCK) None,
          Ev_Remove ''/proc/self/fd/7'' ''user.a'', Ev_Release (StarFile 7)]\<rparr>)
    \<and> listXAttr sample_env ''file'' None s0 =
      (Return (Some [''user.a''], OK),
       \<lparr>world = 0,
        trace = [Ev_Open ''file'' (O_RDONLY OR O_NONBLOCK) None,
          Ev_List ''/proc/self/fd/7'', Ev_Release (StarFile 7)]\<rparr>)
    \<and> procFd 7 \<noteq> ''file''"
proof -
  have g: "getFileFd sample_env ''file'' None s0 =
      (Return (Some 7, 7, OK),
       \<lparr>world = 1, trace = [Ev_Open ''file'' (O_RDONLY OR O_NONBLOCK) None]\<rparr>)"
    by (simp add: getFileFd_def call_defs sample_defs Ok_OK)
  have calls: "xattr_Get sample_env ''/proc/self/fd/7'' ''user.a'' 1 = ((Some [1, 2, 3], None), 1)"
    "xattr_SetWithFlags sample_env ''/proc/self/fd/7'' ''user.a'' (Some [4]) 0 1 = (None, 1)"
    "xattr_Remove sample_env ''/proc/self/fd/7'' ''user.a'' 1 = (None, 1)"
    "xattr_List sample_env ''/proc/self/fd/7'' 1 = ((Some [''user.a''], None), 1)"
    "unpackXattrErr sample_env None = OK"
    "file_Release sample_env (StarFile 7) 1 = 0"
    by (simp_all add: sample_defs)
  show ?thesis
    using attr_calls_target_procFd [OF g Ok_OK, of "''user.a''" "Some [4]" 0]
    by (simp add: procFd_7 calls)
qed

section \<open>Failure of the acquisition\<close>

text \<open>
  C2. When \<open>getFileFd\<close> returns to \<open>listXAttr\<close> with a status that is not OK,
  \<open>listXAttr\<close> returns the nil list with status OK if that status is \<open>ELOOP\<close>, and
  the nil list with that same status otherwise; nothing more is called. \<open>ELOOP\<close> is
  itself not OK, so the first case arises.
\<close>

theorem listXAttr_acquisition_failure:
  assumes "getFileFd E relPath context s = (Return (file, fd, status), s1)" and "\<not> Ok status"
  shows "listXAttr E relPath context s =
      (Return (None, if status = ELOOP then OK else status), s1)
    \<and> \<not> Ok ELOOP"
  using assms by (simp add: listXAttr_def ELOOP_not_Ok)

theorem listXAttr_acquisition_failure_witness:
  "listXAttr sample_env ''symlink'' None s0 =
      (Return (None, OK), \<lparr>world = 0, trace = [Ev_Open ''symlink'' (O_RDONLY OR O_NONBLOCK) None]\<rparr>)
    \<and> \<not> Ok ELOOP"
proof -
  have g: "getFileFd sample_env ''symlink'' None s0 =
      (Return (None, - 1, ELOOP),
       \<lparr>world = 0, trace = [Ev_Open ''symlink'' (O_RDONLY OR O_NONBLOCK) None]\<rparr>)"
    by (simp add: getFileFd_def call_defs sample_defs ELOOP_not_Ok)
  show ?thesis
    using listXAttr_acquisition_failure [OF g ELOOP_not_Ok] by simp
qed

text \<open>
  C5. When \<open>getFileFd\<close> returns to \<open>getXattr\<close>, \<open>setXattr\<close> or \<open>removeXAttr\<close> with a
  status that is not OK, the operation returns that status (\<open>getXattr\<close> with the nil
  value) in the state \<open>getFileFd\<close> left, and that state holds no call into \<open>xattr\<close>
  that was not there before.
\<close>

theorem acquisition_failure_short_circuits:
  assumes "getFileFd E relPath context s = (Return (file, fd, status), s1)" and "\<not> Ok status"
  shows "getXattr E relPath cAttr context s = (Return (None, status), s1)
    \<and> setXattr E relPath cAttr cData flags context s = (Return status, s1)
    \<and> removeXAttr E relPath cAttr context s = (Return status, s1)
    \<and> attr_calls (trace s1) = attr_calls (trace s)"
proof -
  have "attr_calls (trace s1) = attr_calls (trace s)"
    using getFileFd_attr_calls [of E relPath "context" s] assms(1) by simp
  with assms show ?thesis
    by (simp add: getXattr_def setXattr_def removeXAttr_def)
qed

theorem acquisition_failure_short_circuits_witness:
  "getXattr sample_env ''missing'' ''user.a'' None s0 =
      (Return (None, 2), \<lparr>world = 0, trace = [Ev_Open ''missing'' (O_RDONLY OR O_NONBLOCK) None]\<rparr>)
    \<and> setXattr sample_env ''missing'' ''user.a'' (Some [4]) 0 None s0 =
      (Return 2, \<lparr>world = 0, trace = [Ev_Open ''missing'' (O_RDONLY OR O_NONBLOCK) None]\<rparr>)
    \<and> removeXAttr sample_env ''missing'' ''user.a'' None s0 =
      (Return 2, \<lparr>world = 0, trace = [Ev_Open ''missing'' (O_RDONLY OR O_NONBLOCK) None]\<rparr>)
    \<and> attr_calls [Ev_Open ''missing'' (O_RDONLY OR O_NONBLOCK) None :: (int, unit) event] = []"
proof -
  have n: "\<not> Ok 2"
    by (simp add: Ok_def OK_def)
  have g: "getFileFd sample_env ''missing'' None s0 =
      (Return (None, - 1, 2),
       \<lparr>world = 0, trace = [Ev_Open ''missing'' (O_RDONLY OR O_NONBLOCK) None]\<rparr>)"
    by (simp add: getFileFd_def call_defs sample_defs n)
  show ?thesis
    using acquisition_failure_short_circuits [OF g n, of "''user.a''" "Some [4]" 0]
    by (simp add: s0_def attr_calls_def)
qed

section \<open>Release of the opened file\<close>

lemma release_getXattr:
  assumes "fs_Open E relPath (O_RDONLY OR O_NONBLOCK) context (world s) = ((fuseFile, status), w)"
  shows "releases (trace (snd (getXattr E relPath cAttr context s))) =
     releases (trace s) @ (if Ok status \<and> fuseFile \<noteq> NilFile then [fuseFile] else [])"
  using assms
  by (auto simp: getXattr_def getFileFd_cases call_defs releases_def EIO_not_Ok Ok_OK
      split: nodefs_File.splits prod.splits)

lemma release_setXattr:
  assumes "fs_Open E relPath (O_RDONLY OR O_NONBLOCK) context (world s) = ((fuseFile, status), w)"
  shows "releases (trace (snd (setXattr E relPath cAttr cData flags context s))) =
     releases (trace s) @ (if Ok status \<and> fuseFile \<noteq> NilFile then [fuseFile] else [])"
  using assms
  by (auto simp: setXattr_def getFileFd_cases call_defs releases_def EIO_not_Ok Ok_OK
      split: nodefs_File.splits prod.splits)

lemma release_removeXAttr:
  assumes "fs_Open E relPath (O_RDONLY OR O_NONBLOCK) context (world s) = ((fuseFile, status), w)"
  shows "releases (trace (snd (removeXAttr E relPath cAttr context s))) =
     releases (trace s) @ (if Ok status \<and> fuseFile \<noteq> NilFile then [fuseFile] else [])"
  using assms
  by (auto simp: removeXAttr_def getFileFd_cases call_defs releases_def EIO_not_Ok Ok_OK
      split: nodefs_File.splits prod.splits)

lemma release_listXAttr:
  assumes "fs_Open E relPath (O_RDONLY OR O_NONBLOCK) context (world s) = ((fuseFile, status), w)"
  shows "releases (trace (snd (listXAttr E relPath context s))) =
     releases (trace s) @ (if Ok status \<and> fuseFile \<noteq> NilFile then [fuseFile] else [])"
  using assms
  by (auto simp: listXAttr_def getFileFd_cases call_defs releases_def EIO_not_Ok Ok_OK
      split: nodefs_File.splits prod.splits)

text \<open>
  The world an operation leaves: \<open>Release\<close> of the opened object applied, once, to
  the world after the call into \<open>xattr\<close> (after \<open>fs.Open\<close>, when the object is not a
  \<open>*File\<close> and no such call is made); the world after \<open>fs.Open\<close> untouched, when the
  status is not OK.
\<close>

lemma world_getXattr:
  assumes "fs_Open E relPath (O_RDONLY OR O_NONBLOCK) context (world s) = ((fuseFile, status), w)"
  shows "world (snd (getXattr E relPath cAttr context s)) =
     (if Ok status \<and> fuseFile \<noteq> NilFile then
        file_Release E fuseFile
          (case fuseFile of
             StarFile f \<Rightarrow> snd (xattr_Get E (procFd (file_intFd E f)) cAttr w)
           | _ \<Rightarrow> w)
      else w)"
  using assms
  by (auto simp: getXattr_def getFileFd_cases call_defs EIO_not_Ok Ok_OK
      split: nodefs_File.splits prod.splits)

lemma world_setXattr:
  assumes "fs_Open E relPath (O_RDONLY OR O_NONBLOCK) context (world s) = ((fuseFile, status), w)"
  shows "world (snd (setXattr E relPath cAttr cData flags context s)) =
     (if Ok status \<and> fuseFile \<noteq> NilFile then
        file_Release E fuseFile
          (case fuseFile of
             StarFile f \<Rightarrow> snd (xattr_SetWithFlags E (procFd (file_intFd E f)) cAttr cData flags w)
           | _ \<Rightarrow> w)
      else w)"
  using assms
  by (auto simp: setXattr_def getFileFd_cases call_defs EIO_not_Ok Ok_OK
      split: nodefs_File.splits prod.splits)

lemma world_removeXAttr:
  assumes "fs_Open E relPath (O_RDONLY OR O_NONBLOCK) context (world s) = ((fuseFile, status), w)"
  shows "world (snd (removeXAttr E relPath cAttr context s)) =
     (if Ok status \<and> fuseFile \<noteq> NilFile then
        file_Release E fuseFile
          (case fuseFile of
             StarFile f \<Rightarrow> snd (xattr_Remove E (procFd (file_intFd E f)) cAttr w)
           | _ \<Rightarrow> w)
      else w)"
  using assms
  by (auto simp: removeXAttr_def getFileFd_cases call_defs EIO_not_Ok Ok_OK
      split: nodefs_File.splits prod.splits)

lemma world_listXAttr:
  assumes "fs_Open E relPath (O_RDONLY OR O_NONBLOCK) context (world s) = ((fuseFile, status), w)"
  shows "world (snd (listXAttr E relPath context s)) =
     (if Ok status \<and> fuseFile \<noteq> NilFile then
        file_Release E fuseFile
          (case fuseFile of
             StarFile f \<Rightarrow> snd (xattr_List E (procFd (file_intFd E f)) w)
           | _ \<Rightarrow> w)
      else w)"
  using assms
  by (auto simp: listXAttr_def getFileFd_cases call_defs EIO_not_Ok Ok_OK
      split: nodefs_File.splits prod.splits)

text \<open>
  C4. Let \<open>fs.Open\<close> answer the call of \<open>getFileFd\<close> with the object \<open>fuseFile\<close>, the
  status \<open>status\<close> and the world \<open>w\<close>. In a run of \<open>getXattr\<close>, \<open>setXattr\<close>,
  \<open>removeXAttr\<close> or \<open>listXAttr\<close>: when the status is OK and there is an object,
  \<open>Release\<close> is called on \<open>fuseFile\<close> once and on nothing else, and the world left is
  \<open>Release\<close> of \<open>fuseFile\<close> applied to the world after the call into \<open>xattr\<close>, whether
  that call succeeds or fails (to \<open>w\<close>, when the object is not a \<open>*File\<close> and the type
  assertion fails); when the status is not OK, nothing is released and the world
  left is \<open>w\<close>.
\<close>

theorem released_exactly_once:
  assumes "fs_Open E relPath (O_RDONLY OR O_NONBLOCK) context (world s) = ((fuseFile, status), w)"
  shows "releases (trace (snd (getXattr E relPath cAttr context s))) =
      releases (trace s) @ (if Ok status \<and> fuseFile \<noteq> NilFile then [fuseFile] else [])
    \<and> releases (trace (snd (setXattr E relPath cAttr cData flags context s))) =
      releases (trace s) @ (if Ok status \<and> fuseFile \<noteq> NilFile then [fuseFile] else [])
    \<and> releases (trace (snd (removeXAttr E relPath cAttr context s))) =
      releases (trace s) @ (if Ok status \<and> fuseFile \<noteq> NilFile then [fuseFile] else [])
    \<and> releases (trace (snd (listXAttr E relPath context s))) =
      releases (trace s) @ (if Ok status \<and> fuseFile \<noteq> NilFile then [fuseFile] else [])
    \<and> world (snd (getXattr E relPath cAttr context s)) =
      (if Ok status \<and> fuseFile \<noteq> NilFile then
         file_Release E fuseFile
           (case fuseFile of
              StarFile f \<Rightarrow> snd (xattr_Get E (procFd (file_intFd E f)) cAttr w)
            | _ \<Rightarrow> w)
       else w)
    \<and> world (snd (setXattr E relPath cAttr cData flags context s)) =
      (if Ok status \<and> fuseFile \<noteq> NilFile then
         file_Release E fuseFile
           (case fuseFile of
              StarFile f \<Rightarrow> snd (xattr_SetWithFlags E (procFd (file_intFd E f)) cAttr cData flags w)
            | _ \<Rightarrow> w)
       else w)
    \<and> world (snd (removeXAttr E relPath cAttr context s)) =
      (if Ok status \<and> fuseFile \<noteq> NilFile then
         file_Release E fuseFile
           (case fuseFile of
              StarFile f \<Rightarrow> snd (xattr_Remove E (procFd (file_intFd E f)) cAttr w)
            | _ \<Rightarrow> w)
       else w)
    \<and> world (snd (listXAttr E relPath context s)) =
      (if Ok status \<and> fuseFile \<noteq> NilFile then
         file_Release E fuseFile
           (case fuseFile of
              StarFile f \<Rightarrow> snd (xattr_List E (procFd (file_intFd E f)) w)
            | _ \<Rightarrow> w)
       else w)"
  using release_getXattr [OF assms] release_setXattr [OF assms]
    release_removeXAttr [OF assms] release_listXAttr [OF assms]
    world_getXattr [OF assms] world_setXattr [OF assms]
    world_removeXAttr [OF assms] world_listXAttr [OF assms]
  by (intro conjI)

theorem released_exactly_once_witness:
  "releases (trace (snd (getXattr sample_env ''file'' ''user.a'' None s0))) = [StarFile 7]
    \<and> releases (trace (snd (setXattr sample_env ''file'' ''user.a'' (Some [4]) 0 None s0))) = [StarFile 7]
    \<and> releases (trace (snd (removeXAttr sample_env ''stale'' ''user.a'' None s0))) = [StarFile 8]
    \<and> releases (trace (snd (listXAttr sample_env ''stale'' None s0))) = [StarFile 8]
    \<and> releases (trace (snd (getXattr sample_env ''foreign'' ''user.a'' None s0))) = [OtherFile ()]
    \<and> releases (trace (snd (listXAttr sample_env ''symlink'' None s0))) = []
    \<and> world (snd (getXattr sample_env ''file'' ''user.a'' None s0)) = 0
    \<and> world (snd (setXattr sample_env ''file'' ''user.a'' (Some [4]) 0 None s0)) = 0
    \<and> world (snd (removeXAttr sample_env ''stale'' ''user.a'' None s0)) = 0
    \<and> world (snd (listXAttr sample_env ''stale'' None s0)) = 0
    \<and> world (snd (getXattr sample_env ''foreign'' ''user.a'' None s0)) = 0
    \<and> world (snd (listXAttr sample_env ''symlink'' None s0)) = 0"
proof -
  have regular: "fs_Open sample_env ''file'' (O_RDONLY OR O_NONBLOCK) None (world s0) =
      ((StarFile 7, OK), 1)"
    by (simp add: sample_defs)
  have stale: "fs_Open sample_env ''stale'' (O_RDONLY OR O_NONBLOCK) None (world s0) =
      ((StarFile 8, OK), 1)"
    by (simp add: sample_defs)
  have foreign: "fs_Open sample_env ''foreign'' (O_RDONLY OR O_NONBLOCK) None (world s0) =
      ((OtherFile (), OK), 1)"
    by (simp add: sample_defs)
  have symlink: "fs_Open sample_env ''symlink'' (O_RDONLY OR O_NONBLOCK) None (world s0) =
      ((NilFile, ELOOP), 0)"
    by (simp add: sample_defs)
  have nil: "releases (trace s0) = []"
    by (simp add: s0_def releases_def)
  have calls: "snd (xattr_Get sample_env p n 1) = 1"
    "snd (xattr_SetWithFlags sample_env p n d fl 1) = 1"
    "snd (xattr_Remove sample_env p n 1) = 1"
    "snd (xattr_List sample_env p 1) = 1"
    "file_Release sample_env x 1 = 0" for p n d fl x
    by (simp_all add: sample_defs)
  show ?thesis
    using released_exactly_once [OF regular, of "''user.a''" "Some [4]" 0]
      released_exactly_once [OF stale, of "''user.a''" "Some [4]" 0]
      released_exactly_once [OF foreign, of "''user.a''" "Some [4]" 0]
      released_exactly_once [OF symlink, of "''user.a''" "Some [4]" 0]
    by (simp add: nil Ok_OK ELOOP_not_Ok calls)
qed

section \<open>The open flags\<close>

text \<open>
  C6. \<open>getFileFd\<close> is one call of \<open>fs.Open\<close> on \<open>relPath\<close> with the flags \<open>O_RDONLY\<close>
  or-ed with \<open>O_NONBLOCK\<close>: what \<open>getFileFd\<close> returns and the world it leaves are
  those of the answer \<open>fs.Open\<close> gives to exactly these arguments, and the trace
  gains exactly this one call of \<open>fs.Open\<close>. In these flags the access mode (the low
  two bits) is \<open>O_RDONLY\<close>, the bit \<open>O_NONBLOCK\<close> is set, and no other bit is.
\<close>

theorem getFileFd_open_flags:
  assumes "fs_Open E relPath (O_RDONLY OR O_NONBLOCK) context (world s) = ((fuseFile, status), w)"
  shows "getFileFd E relPath context s =
      (if \<not> Ok status then
         (Return (None, - 1, status),
          \<lparr>world = w, trace = trace s @ [Ev_Open relPath (O_RDONLY OR O_NONBLOCK) context]\<rparr>)
       else case fuseFile of
         StarFile file \<Rightarrow>
           (Return (Some file, file_intFd E file, OK),
            \<lparr>world = w, trace = trace s @ [Ev_Open relPath (O_RDONLY OR O_NONBLOCK) context]\<rparr>)
       | OtherFile x \<Rightarrow>
           (Return (None, - 1, EIO),
            \<lparr>world = file_Release E fuseFile w,
             trace = trace s @ [Ev_Open relPath (O_RDONLY OR O_NONBLOCK) context,
               Ev_Warn ''BUG: xattrGet: cast to *File failed'', Ev_Release fuseFile]\<rparr>)
       | NilFile \<Rightarrow>
           (Panic,
            \<lparr>world = w,
             trace = trace s @ [Ev_Open relPath (O_RDONLY OR O_NONBLOCK) context,
               Ev_Warn ''BUG: xattrGet: cast to *File failed'']\<rparr>))
    \<and> opens (trace (snd (getFileFd E relPath context s))) =
      opens (trace s) @ [Ev_Open relPath (O_RDONLY OR O_NONBLOCK) context]
    \<and> (O_RDONLY OR O_NONBLOCK) AND 3 = O_RDONLY
    \<and> (O_RDONLY OR O_NONBLOCK) AND O_NONBLOCK = O_NONBLOCK
    \<and> (O_RDONLY OR O_NONBLOCK) AND NOT (3 OR O_NONBLOCK) = 0"
proof -
  have "opens (trace (snd (getFileFd E relPath context s))) =
      opens (trace s) @ [Ev_Open relPath (O_RDONLY OR O_NONBLOCK) context]"
    unfolding getFileFd_cases [OF assms]
    by (simp add: opens_def split: nodefs_File.splits)
  moreover have "(O_RDONLY OR O_NONBLOCK) AND 3 = O_RDONLY"
    "(O_RDONLY OR O_NONBLOCK) AND O_NONBLOCK = O_NONBLOCK"
    "(O_RDONLY OR O_NONBLOCK) AND NOT (3 OR O_NONBLOCK) = 0"
    by (simp_all add: O_RDONLY_def O_NONBLOCK_def)
  ultimately show ?thesis
    using getFileFd_cases [OF assms] by (intro conjI)
qed

theorem getFileFd_open_flags_witness:
  "getFileFd sample_env ''fifo'' None s0 =
      (Return (Some 9, 9, OK),
       \<lparr>world = 1, trace = [Ev_Open ''fifo'' (O_RDONLY OR O_NONBLOCK) None]\<rparr>)
    \<and> fs_Open sample_env ''fifo'' O_RDONLY None (world s0) = ((NilFile, 4), 0)"
proof -
  have nonblock: "(O_RDONLY OR O_NONBLOCK) AND O_NONBLOCK = O_NONBLOCK"
    "O_RDONLY AND O_NONBLOCK \<noteq> O_NONBLOCK"
    by (simp_all add: O_RDONLY_def O_NONBLOCK_def)
  have fifo: "fs_Open sample_env ''fifo'' (O_RDONLY OR O_NONBLOCK) None (world s0) =
      ((StarFile 9, OK), 1)"
    by (simp add: sample_defs nonblock)
  have blocking: "fs_Open sample_env ''fifo'' O_RDONLY None (world s0) = ((NilFile, 4), 0)"
    by (simp add: sample_defs nonblock)
  show ?thesis
    using getFileFd_open_flags [OF fifo] blocking
    by (simp add: Ok_OK sample_env_def s0_def)
qed

section \<open>The flags of setXattr\<close>

text \<open>
  C7. \<open>filterXattrSetFlags\<close> returns its argument. When \<open>getFileFd\<close> has returned a
  file, a descriptor \<open>fd\<close> and an OK status, leaving the state \<open>s1\<close>, \<open>setXattr\<close> is
  the one call \<open>xattr.SetWithFlags\<close> with the path \<open>procFd fd\<close> and the name, the
  value and the \<open>flags\<close> that \<open>setXattr\<close> was given, in the world of \<open>s1\<close>: it returns
  the translation of what that call answers, and leaves the world of that call with
  the file released. The trace gains that call, with those flags, and no other call
  into \<open>xattr\<close>.
\<close>

theorem setXattr_flags_unmodified:
  assumes "getFileFd E relPath context s = (Return (file, fd, status), s1)" and "Ok status"
  shows "(\<exists>f. file = Some f
      \<and> setXattr E relPath cAttr cData flags context s =
          (case xattr_SetWithFlags E (procFd fd) cAttr cData flags (world s1) of
             (err, w) \<Rightarrow>
               (Return (unpackXattrErr E err),
                \<lparr>world = file_Release E (StarFile f) w,
                 trace = trace s1 @ [Ev_SetWithFlags (procFd fd) cAttr cData flags,
                   Ev_Release (StarFile f)]\<rparr>)))
    \<and> attr_calls (trace (snd (setXattr E relPath cAttr cData flags context s))) =
      attr_calls (trace s) @ [Ev_SetWithFlags (procFd fd) cAttr cData flags]
    \<and> filterXattrSetFlags flags = flags"
proof -
  from getFileFd_Ok [OF assms] obtain f where
    f: "file = Some f"
    and s1: "trace s1 = trace s @ [Ev_Open relPath (O_RDONLY OR O_NONBLOCK) context]"
    by blast
  note g = assms(1) [unfolded f]
  have "attr_calls (trace (snd (setXattr E relPath cAttr cData flags context s))) =
      attr_calls (trace s) @ [Ev_SetWithFlags (procFd fd) cAttr cData flags]"
    by (simp add: setXattr_Ok [OF g assms(2)] s1 attr_calls_def)
  moreover have "filterXattrSetFlags flags = flags"
    by (simp add: filterXattrSetFlags_def)
  ultimately show ?thesis
    using f setXattr_run [OF g assms(2), of cAttr cData flags] by blast
qed

theorem setXattr_flags_unmodified_witness:
  "setXattr sample_env ''file'' ''user.a'' (Some [9]) 1 None s0 =
      (Return 17,
       \<lparr>world = 0,
        trace = [Ev_Open ''file'' (O_RDONLY OR O_NONBLOCK) None,
          Ev_SetWithFlags ''/proc/self/fd/7'' ''user.a'' (Some [9]) 1, Ev_Release (StarFile 7)]\<rparr>)
    \<and> setXattr sample_env ''file'' ''user.a'' (Some [9]) 2 None s0 =
      (Return OK,
       \<lparr>world = 0,
        trace = [Ev_Open ''file'' (O_RDONLY OR O_NONBLOCK) None,
          Ev_SetWithFlags ''/proc/self/fd/7'' ''user.a'' (Some [9]) 2, Ev_Release (StarFile 7)]\<rparr>)
    \<and> filterXattrSetFlags 2 = 2"
proof -
  have g: "getFileFd sample_env ''file'' None s0 =
      (Return (Some 7, 7, OK),
       \<lparr>world = 1, trace = [Ev_Open ''file'' (O_RDONLY OR O_NONBLOCK) None]\<rparr>)"
    by (simp add: getFileFd_def call_defs sample_defs Ok_OK)
  have calls: "xattr_SetWithFlags sample_env ''/proc/self/fd/7'' ''user.a'' (Some [9]) 1 1 = (Some 17, 1)"
    "xattr_SetWithFlags sample_env ''/proc/self/fd/7'' ''user.a'' (Some [9]) 2 1 = (None, 1)"
    "unpackXattrErr sample_env None = OK"
    "unpackXattrErr sample_env (Some 17) = 17"
    "file_Release sample_env (StarFile 7) 1 = 0"
    by (simp_all add: sample_defs)
  show ?thesis
    using setXattr_flags_unmodified [OF g Ok_OK, of "''user.a''" "Some [9]" 1]
      setXattr_flags_unmodified [OF g Ok_OK, of "''user.a''" "Some [9]" 2]
    by (simp add: procFd_7 calls)
qed

section \<open>The failed type assertion\<close>

text \<open>
  C8. When \<open>fs.Open\<close> answers with an OK status and an object that is not a \<open>*File\<close>,
  \<open>getFileFd\<close> logs the warning, calls \<open>Release\<close> on that object, and returns the nil
  file, descriptor -1 and status \<open>EIO\<close>, which is not OK. It makes no other call.
\<close>

theorem getFileFd_cast_failure:
  assumes "fs_Open E relPath (O_RDONLY OR O_NONBLOCK) context (world s) = ((OtherFile x, status), w)"
    and "Ok status"
  shows "getFileFd E relPath context s =
      (Return (None, - 1, EIO),
       \<lparr>world = file_Release E (OtherFile x) w,
        trace = trace s @ [Ev_Open relPath (O_RDONLY OR O_NONBLOCK) context,
          Ev_Warn ''BUG: xattrGet: cast to *File failed'', Ev_Release (OtherFile x)]\<rparr>)
    \<and> \<not> Ok EIO"
  using assms(2) by (simp add: getFileFd_cases [OF assms(1)] EIO_not_Ok)

theorem getFileFd_cast_failure_witness:
  "getFileFd sample_env ''foreign'' None s0 =
      (Return (None, - 1, EIO),
       \<lparr>world = 0,
        trace = [Ev_Open ''foreign'' (O_RDONLY OR O_NONBLOCK) None,
          Ev_Warn ''BUG: xattrGet: cast to *File failed'', Ev_Release (OtherFile ())]\<rparr>)
    \<and> \<not> Ok EIO"
proof -
  have foreign: "fs_Open sample_env ''foreign'' (O_RDONLY OR O_NONBLOCK) None (world s0) =
      ((OtherFile (), OK), 1)"
    by (simp add: sample_defs)
  show ?thesis
    using getFileFd_cast_failure [OF foreign Ok_OK]
    by (simp add: sample_env_def s0_def)
qed

section \<open>No name check inside the operations\<close>

lemma getXattr_any_name:
  "map erase_name (trace (snd (getXattr E relPath a context s))) =
   map erase_name (trace (snd (getXattr E relPath b context s)))"
proof -
  obtain fuseFile st w where
    o: "fs_Open E relPath (O_RDONLY OR O_NONBLOCK) context (world s) = ((fuseFile, st), w)"
    by (metis surj_pair)
  show ?thesis
    by (auto simp: getXattr_def getFileFd_cases [OF o] call_defs
        split: nodefs_File.splits prod.splits)
qed

lemma setXattr_any_name:
  "map erase_name (trace (snd (setXattr E relPath a cData flags context s))) =
   map erase_name (trace (snd (setXattr E relPath b cData flags context s)))"
proof -
  obtain fuseFile st w where
    o: "fs_Open E relPath (O_RDONLY OR O_NONBLOCK) context (world s) = ((fuseFile, st), w)"
    by (metis surj_pair)
  show ?thesis
    by (auto simp: setXattr_def getFileFd_cases [OF o] call_defs
        split: nodefs_File.splits prod.splits)
qed

lemma removeXAttr_any_name:
  "map erase_name (trace (snd (removeXAttr E relPath a context s))) =
   map erase_name (trace (snd (removeXAttr E relPath b context s)))"
proof -
  obtain fuseFile st w where
    o: "fs_Open E relPath (O_RDONLY OR O_NONBLOCK) context (world s) = ((fuseFile, st), w)"
    by (metis surj_pair)
  show ?thesis
    by (auto simp: removeXAttr_def getFileFd_cases [OF o] call_defs
        split: nodefs_File.splits prod.splits)
qed

text \<open>
  Two names that package \<open>xattr\<close> answers alike get the same result and leave the
  same world: nothing but that package tells names apart.
\<close>

lemma getXattr_same_answer:
  assumes "\<And>p w. xattr_Get E p a w = xattr_Get E p b w"
  shows "fst (getXattr E relPath a context s) = fst (getXattr E relPath b context s)
    \<and> world (snd (getXattr E relPath a context s)) = world (snd (getXattr E relPath b context s))"
proof -
  obtain fuseFile st w where
    o: "fs_Open E relPath (O_RDONLY OR O_NONBLOCK) context (world s) = ((fuseFile, st), w)"
    by (metis surj_pair)
  show ?thesis
    by (auto simp: getXattr_def getFileFd_cases [OF o] call_defs assms
        split: nodefs_File.splits prod.splits)
qed

lemma setXattr_same_answer:
  assumes "\<And>p w. xattr_SetWithFlags E p a cData flags w = xattr_SetWithFlags E p b cData flags w"
  shows "fst (setXattr E relPath a cData flags context s) =
      fst (setXattr E relPath b cData flags context s)
    \<and> world (snd (setXattr E relPath a cData flags context s)) =
      world (snd (setXattr E relPath b cData flags context s))"
proof -
  obtain fuseFile st w where
    o: "fs_Open E relPath (O_RDONLY OR O_NONBLOCK) context (world s) = ((fuseFile, st), w)"
    by (metis surj_pair)
  show ?thesis
    by (auto simp: setXattr_def getFileFd_cases [OF o] call_defs assms
        split: nodefs_File.splits prod.splits)
qed

lemma removeXAttr_same_answer:
  assumes "\<And>p w. xattr_Remove E p a w = xattr_Remove E p b w"
  shows "fst (removeXAttr E relPath a context s) = fst (removeXAttr E relPath b context s)
    \<and> world (snd (removeXAttr E relPath a context s)) =
      world (snd (removeXAttr E relPath b context s))"
proof -
  obtain fuseFile st w where
    o: "fs_Open E relPath (O_RDONLY OR O_NONBLOCK) context (world s) = ((fuseFile, st), w)"
    by (metis surj_pair)
  show ?thesis
    by (auto simp: removeXAttr_def getFileFd_cases [OF o] call_defs assms
        split: nodefs_File.splits prod.splits)
qed

text \<open>On an opened \<open>*File\<close> the result is the translated answer of package \<open>xattr\<close> for the very name given.\<close>

lemma answer_for_name:
  assumes "fs_Open E relPath (O_RDONLY OR O_NONBLOCK) context (world s) = ((StarFile f, status), w)"
    and "Ok status"
  shows "fst (getXattr E relPath a context s) =
      Return (case fst (xattr_Get E (procFd (file_intFd E f)) a w) of
                (cData', err) \<Rightarrow>
                  if err \<noteq> None then (None, unpackXattrErr E err) else (cData', OK))"
    and "fst (setXattr E relPath a cData flags context s) =
      Return (unpackXattrErr E (fst (xattr_SetWithFlags E (procFd (file_intFd E f)) a cData flags w)))"
    and "fst (removeXAttr E relPath a context s) =
      Return (unpackXattrErr E (fst (xattr_Remove E (procFd (file_intFd E f)) a w)))"
  using assms(2)
  by (auto simp: getXattr_def setXattr_def removeXAttr_def getFileFd_cases [OF assms(1)] call_defs
      Ok_OK split: prod.splits)

text \<open>
  C9. \<open>getXattr\<close>, \<open>setXattr\<close> and \<open>removeXAttr\<close> treat every attribute name alike,
  whatever \<open>disallowedXAttrName\<close> says of it. Run from the same state on two names
  \<open>a\<close> and \<open>b\<close>, the traces agree call by call once the name is blanked; if package
  \<open>xattr\<close> answers the two names alike, the operation returns the same result and
  leaves the same world for both; and on a file that \<open>fs.Open\<close> opened as a \<open>*File\<close>
  with an OK status the result is the translated answer of the call into \<open>xattr\<close>
  for the very name given. So no branch of an operation depends on the name, and
  the name reaches package \<open>xattr\<close> unchanged.
\<close>

theorem no_name_check_inside:
  "map erase_name (trace (snd (getXattr E relPath a context s))) =
      map erase_name (trace (snd (getXattr E relPath b context s)))
    \<and> map erase_name (trace (snd (setXattr E relPath a cData flags context s))) =
      map erase_name (trace (snd (setXattr E relPath b cData flags context s)))
    \<and> map erase_name (trace (snd (removeXAttr E relPath a context s))) =
      map erase_name (trace (snd (removeXAttr E relPath b context s)))
    \<and> ((\<forall>p w. xattr_Get E p a w = xattr_Get E p b w) \<longrightarrow>
         fst (getXattr E relPath a context s) = fst (getXattr E relPath b context s)
         \<and> world (snd (getXattr E relPath a context s)) =
           world (snd (getXattr E relPath b context s)))
    \<and> ((\<forall>p w. xattr_SetWithFlags E p a cData flags w = xattr_SetWithFlags E p b cData flags w) \<longrightarrow>
         fst (setXattr E relPath a cData flags context s) =
           fst (setXattr E relPath b cData flags context s)
         \<and> world (snd (setXattr E relPath a cData flags context s)) =
           world (snd (setXattr E relPath b cData flags context s)))
    \<and> ((\<forall>p w. xattr_Remove E p a w = xattr_Remove E p b w) \<longrightarrow>
         fst (removeXAttr E relPath a context s) = fst (removeXAttr E relPath b context s)
         \<and> world (snd (removeXAttr E relPath a context s)) =
           world (snd (removeXAttr E relPath b context s)))
    \<and> (fs_Open E relPath (O_RDONLY OR O_NONBLOCK) context (world s) = ((StarFile f, status), w)
         \<and> Ok status \<longrightarrow>
         fst (getXattr E relPath a context s) =
           Return (case fst (xattr_Get E (procFd (file_intFd E f)) a w) of
                     (cData', err) \<Rightarrow>
                       if err \<noteq> None then (None, unpackXattrErr E err) else (cData', OK))
         \<and> fst (setXattr E relPath a cData flags context s) =
           Return (unpackXattrErr E
             (fst (xattr_SetWithFlags E (procFd (file_intFd E f)) a cData flags w)))
         \<and> fst (removeXAttr E relPath a context s) =
           Return (unpackXattrErr E (fst (xattr_Remove E (procFd (file_intFd E f)) a w))))"
proof -
  have get: "(\<forall>p w. xattr_Get E p a w = xattr_Get E p b w) \<longrightarrow>
      fst (getXattr E relPath a context s) = fst (getXattr E relPath b context s)
      \<and> world (snd (getXattr E relPath a context s)) =
        world (snd (getXattr E relPath b context s))"
  proof
    assume "\<forall>p w. xattr_Get E p a w = xattr_Get E p b w"
    then have "xattr_Get E p a w = xattr_Get E p b w" for p w
      by blast
    then show "fst (getXattr E relPath a context s) = fst (getXattr E relPath b context s)
      \<and> world (snd (getXattr E relPath a context s)) =
        world (snd (getXattr E relPath b context s))"
      by (rule getXattr_same_answer)
  qed
  have set: "(\<forall>p w. xattr_SetWithFlags E p a cData flags w =
        xattr_SetWithFlags E p b cData flags w) \<longrightarrow>
      fst (setXattr E relPath a cData flags context s) =
        fst (setXattr E relPath b cData flags context s)
      \<and> world (snd (setXattr E relPath a cData flags context s)) =
        world (snd (setXattr E relPath b cData flags context s))"
  proof
    assume "\<forall>p w. xattr_SetWithFlags E p a cData flags w =
      xattr_SetWithFlags E p b cData flags w"
    then have "xattr_SetWithFlags E p a cData flags w =
        xattr_SetWithFlags E p b cData flags w" for p w
      by blast
    then show "fst (setXattr E relPath a cData flags context s) =
        fst (setXattr E relPath b cData flags context s)
      \<and> world (snd (setXattr E relPath a cData flags context s)) =
        world (snd (setXattr E relPath b cData flags context s))"
      by (rule setXattr_same_answer)
  qed
  have remove: "(\<forall>p w. xattr_Remove E p a w = xattr_Remove E p b w) \<longrightarrow>
      fst (removeXAttr E relPath a context s) = fst (removeXAttr E relPath b context s)
      \<and> world (snd (removeXAttr E relPath a context s)) =
        world (snd (removeXAttr E relPath b context s))"
  proof
    assume "\<forall>p w. xattr_Remove E p a w = xattr_Remove E p b w"
    then have "xattr_Remove E p a w = xattr_Remove E p b w" for p w
      by blast
    then show "fst (removeXAttr E relPath a context s) = fst (removeXAttr E relPath b context s)
      \<and> world (snd (removeXAttr E relPath a context s)) =
        world (snd (removeXAttr E relPath b context s))"
      by (rule removeXAttr_same_answer)
  qed
  have answer: "fs_Open E relPath (O_RDONLY OR O_NONBLOCK) context (world s) =
        ((StarFile f, status), w) \<and> Ok status \<longrightarrow>
      fst (getXattr E relPath a context s) =
        Return (case fst (xattr_Get E (procFd (file_intFd E f)) a w) of
                  (cData', err) \<Rightarrow>
                    if err \<noteq> None then (None, unpackXattrErr E err) else (cData', OK))
      \<and> fst (setXattr E relPath a cData flags context s) =
        Return (unpackXattrErr E
          (fst (xattr_SetWithFlags E (procFd (file_intFd E f)) a cData flags w)))
      \<and> fst (removeXAttr E relPath a context s) =
        Return (unpackXattrErr E (fst (xattr_Remove E (procFd (file_intFd E f)) a w)))"
  proof (intro impI, elim conjE)
    assume o: "fs_Open E relPath (O_RDONLY OR O_NONBLOCK) context (world s) =
        ((StarFile f, status), w)"
      and k: "Ok status"
    show "fst (getXattr E relPath a context s) =
        Return (case fst (xattr_Get E (procFd (file_intFd E f)) a w) of
                  (cData', err) \<Rightarrow>
                    if err \<noteq> None then (None, unpackXattrErr E err) else (cData', OK))
      \<and> fst (setXattr E relPath a cData flags context s) =
        Return (unpackXattrErr E
          (fst (xattr_SetWithFlags E (procFd (file_intFd E f)) a cData flags w)))
      \<and> fst (removeXAttr E relPath a context s) =
        Return (unpackXattrErr E (fst (xattr_Remove E (procFd (file_intFd E f)) a w)))"
      by (intro conjI answer_for_name [OF o k])
  qed
  show ?thesis
    by (intro conjI getXattr_any_name setXattr_any_name removeXAttr_any_name
        get set remove answer)
qed

theorem no_name_check_inside_witness:
  "disallowedXAttrName ''security.selinux'' \<and> \<not> disallowedXAttrName ''user.b''
    \<and> fst (getXattr sample_env ''file'' ''security.selinux'' None s0) = Return (None, 61)
    \<and> fst (getXattr sample_env ''file'' ''user.b'' None s0) = Return (None, 61)
    \<and> fst (setXattr sample_env ''file'' ''security.selinux'' (Some [4]) 0 None s0) = Return OK
    \<and> fst (setXattr sample_env ''file'' ''user.b'' (Some [4]) 0 None s0) = Return OK
    \<and> fst (removeXAttr sample_env ''file'' ''security.selinux'' None s0) = Return 61
    \<and> fst (removeXAttr sample_env ''file'' ''user.b'' None s0) = Return 61
    \<and> world (snd (setXattr sample_env ''file'' ''security.selinux'' (Some [4]) 0 None s0)) =
      world (snd (setXattr sample_env ''file'' ''user.b'' (Some [4]) 0 None s0))
    \<and> map erase_name (trace (snd (setXattr sample_env ''file'' ''security.selinux'' (Some [4]) 0 None s0))) =
      map erase_name (trace (snd (setXattr sample_env ''file'' ''user.b'' (Some [4]) 0 None s0)))"
proof -
  have names: "disallowedXAttrName ''security.selinux''" "\<not> disallowedXAttrName ''user.b''"
    by (simp_all add: disallowedXAttrName_def xattrUserPrefix_def HasPrefix_def)
  have regular: "fs_Open sample_env ''file'' (O_RDONLY OR O_NONBLOCK) None (world s0) =
      ((StarFile 7, OK), 1)"
    by (simp add: sample_defs)
  have alike: "\<forall>p w. xattr_Get sample_env p ''security.selinux'' w = xattr_Get sample_env p ''user.b'' w"
    "\<forall>p w. xattr_SetWithFlags sample_env p ''security.selinux'' (Some [4]) 0 w =
      xattr_SetWithFlags sample_env p ''user.b'' (Some [4]) 0 w"
    "\<forall>p w. xattr_Remove sample_env p ''security.selinux'' w = xattr_Remove sample_env p ''user.b'' w"
    by (simp_all add: sample_defs)
  have answers: "fst (xattr_Get sample_env ''/proc/self/fd/7'' ''security.selinux'' 1) = (None, Some 61)"
    "fst (xattr_SetWithFlags sample_env ''/proc/self/fd/7'' ''security.selinux'' (Some [4]) 0 1) = None"
    "fst (xattr_Remove sample_env ''/proc/self/fd/7'' ''security.selinux'' 1) = Some 61"
    "unpackXattrErr sample_env None = OK"
    "unpackXattrErr sample_env (Some 61) = 61"
    "file_intFd sample_env 7 = 7"
    by (simp_all add: sample_defs)
  note t = no_name_check_inside [of sample_env "''file''" "''security.selinux''" None s0
      "''user.b''" "Some [4]" 0 7 OK 1]
  have same: "fst (getXattr sample_env ''file'' ''security.selinux'' None s0) =
      fst (getXattr sample_env ''file'' ''user.b'' None s0)"
    "fst (setXattr sample_env ''file'' ''security.selinux'' (Some [4]) 0 None s0) =
      fst (setXattr sample_env ''file'' ''user.b'' (Some [4]) 0 None s0)"
    "fst (removeXAttr sample_env ''file'' ''security.selinux'' None s0) =
      fst (removeXAttr sample_env ''file'' ''user.b'' None s0)"
    "world (snd (setXattr sample_env ''file'' ''security.selinux'' (Some [4]) 0 None s0)) =
      world (snd (setXattr sample_env ''file'' ''user.b'' (Some [4]) 0 None s0))"
    "map erase_name (trace (snd (setXattr sample_env ''file'' ''security.selinux'' (Some [4]) 0 None s0))) =
      map erase_name (trace (snd (setXattr sample_env ''file'' ''user.b'' (Some [4]) 0 None s0)))"
    using t alike by blast+
  have "fst (getXattr sample_env ''file'' ''security.selinux'' None s0) =
      Return (case fst (xattr_Get sample_env (procFd (file_intFd sample_env 7))
                ''security.selinux'' 1) of
                (cData', err) \<Rightarrow>
                  if err \<noteq> None then (None, unpackXattrErr sample_env err) else (cData', OK))"
    "fst (setXattr sample_env ''file'' ''security.selinux'' (Some [4]) 0 None s0) =
      Return (unpackXattrErr sample_env
        (fst (xattr_SetWithFlags sample_env (procFd (file_intFd sample_env 7))
          ''security.selinux'' (Some [4]) 0 1)))"
    "fst (removeXAttr sample_env ''file'' ''security.selinux'' None s0) =
      Return (unpackXattrErr sample_env
        (fst (xattr_Remove sample_env (procFd (file_intFd sample_env 7)) ''security.selinux'' 1)))"
    using t regular Ok_OK by blast+
  then have answer: "fst (getXattr sample_env ''file'' ''security.selinux'' None s0) = Return (None, 61)"
    "fst (setXattr sample_env ''file'' ''security.selinux'' (Some [4]) 0 None s0) = Return OK"
    "fst (removeXAttr sample_env ''file'' ''security.selinux'' None s0) = Return 61"
    by (simp_all add: answers procFd_7)
  from names same answer show ?thesis
    by simp
qed

section \<open>Failure of the listing itself\<close>

text \<open>
  C10. When \<open>getFileFd\<close> has returned with an OK status and \<open>xattr.List\<close> then fails
  with an error \<open>e\<close>, \<open>listXAttr\<close> returns the nil list with the status that
  \<open>unpackXattrErr\<close> gives for \<open>e\<close>. The special case of \<open>ELOOP\<close> does not apply: if
  that status is \<open>ELOOP\<close> the result is the nil list with \<open>ELOOP\<close>, and as long as the
  translation of an error is not OK the result is not the nil list with OK.
\<close>

theorem listXAttr_List_failure:
  assumes "getFileFd E relPath context s = (Return (file, fd, status), s1)" and "Ok status"
    and "xattr_List E (procFd fd) (world s1) = ((cNames, Some e), w)"
  shows "fst (listXAttr E relPath context s) = Return (None, unpackXattrErr E (Some e))
    \<and> (unpackXattrErr E (Some e) = ELOOP \<longrightarrow>
         fst (listXAttr E relPath context s) = Return (None, ELOOP))
    \<and> (unpackXattrErr E (Some e) \<noteq> OK \<longrightarrow>
         fst (listXAttr E relPath context s) \<noteq> Return (None, OK))
    \<and> ELOOP \<noteq> OK"
proof -
  from getFileFd_Ok [OF assms(1,2)] obtain f where f: "file = Some f"
    by blast
  have "fst (listXAttr E relPath context s) = Return (None, unpackXattrErr E (Some e))"
    using assms by (simp add: listXAttr_def call_defs f)
  then show ?thesis
    by (simp add: ELOOP_def OK_def)
qed

theorem listXAttr_List_failure_witness:
  "fst (listXAttr sample_env ''stale'' None s0) = Return (None, ELOOP)
    \<and> fst (listXAttr sample_env ''stale'' None s0) \<noteq> Return (None, OK)"
proof -
  have g: "getFileFd sample_env ''stale'' None s0 =
      (Return (Some 8, 8, OK),
       \<lparr>world = 1, trace = [Ev_Open ''stale'' (O_RDONLY OR O_NONBLOCK) None]\<rparr>)"
    by (simp add: getFileFd_def call_defs sample_defs Ok_OK)
  have l: "xattr_List sample_env (procFd 8)
      (world \<lparr>world = 1, trace = [Ev_Open ''stale'' (O_RDONLY OR O_NONBLOCK) None]\<rparr>) =
      ((None, Some 40), 1)"
    by (simp add: sample_defs procFd_8)
  have u: "unpackXattrErr sample_env (Some 40) = ELOOP"
    by (simp add: sample_defs ELOOP_def)
  have n: "ELOOP \<noteq> OK"
    by (simp add: ELOOP_def OK_def)
  show ?thesis
    using listXAttr_List_failure [OF g Ok_OK l] by (simp add: u n)
qed

end
